theory Spec2Isabelle
  imports Complex_Main
begin

section \<open>Python values\<close>

text \<open>
  A Python \<open>str\<close> is a sequence of Unicode code points, and \<open>len\<close> counts code points.
  The captions carry emoji, so a string is modelled as the list of its code points.
  \<open>lit\<close> writes an ASCII literal.
\<close>

type_synonym pystr = "nat list"

definition lit :: "string \<Rightarrow> pystr" where
  "lit s = map of_char s"

text \<open>\<open>str(i)\<close> for an integer: the decimal digits, with a minus sign below zero.\<close>

fun digits :: "nat \<Rightarrow> pystr" where
  "digits n = (if n < 10 then [48 + n] else digits (n div 10) @ [48 + n mod 10])"

definition str_int :: "int \<Rightarrow> pystr" where
  "str_int i = (if i < 0 then 45 # digits (nat (- i)) else digits (nat i))"

text \<open>\<open>sub in s\<close> on strings: \<open>sub\<close> occurs in \<open>s\<close> as a contiguous run.\<close>

definition startswith :: "pystr \<Rightarrow> pystr \<Rightarrow> bool" where
  "startswith s sub = (take (length sub) s = sub)"

fun py_in :: "pystr \<Rightarrow> pystr \<Rightarrow> bool" where
  "py_in sub [] = (sub = [])"
| "py_in sub (x # xs) = (startswith (x # xs) sub \<or> py_in sub xs)"

text \<open>
  Whitespace as \<open>str.isspace\<close>, \<open>str.split()\<close>, \<open>str.strip()\<close> and the pattern \<open>\s\<close> of
  \<open>re\<close> see it.
\<close>

definition isspace :: "nat \<Rightarrow> bool" where
  "isspace c = ((0x09 \<le> c \<and> c \<le> 0x0D) \<or> (0x1C \<le> c \<and> c \<le> 0x20) \<or> c = 0x85 \<or> c = 0xA0
                \<or> c = 0x1680 \<or> (0x2000 \<le> c \<and> c \<le> 0x200A) \<or> c = 0x2028 \<or> c = 0x2029
                \<or> c = 0x202F \<or> c = 0x205F \<or> c = 0x3000)"

text \<open>\<open>s.split()\<close>: the maximal runs of characters that are not whitespace.\<close>

fun split_from :: "pystr \<Rightarrow> pystr \<Rightarrow> pystr list" where
  "split_from w [] = (if w = [] then [] else [w])"
| "split_from w (c # cs) =
     (if isspace c then (if w = [] then split_from [] cs else w # split_from [] cs)
      else split_from (w @ [c]) cs)"

definition py_split :: "pystr \<Rightarrow> pystr list" where
  "py_split s = split_from [] s"

text \<open>\<open>sep.join(xs)\<close> and \<open>s.strip()\<close>.\<close>

fun join :: "pystr \<Rightarrow> pystr list \<Rightarrow> pystr" where
  "join sep [] = []"
| "join sep [x] = x"
| "join sep (x # y # ys) = x @ sep @ join sep (y # ys)"

definition strip :: "pystr \<Rightarrow> pystr" where
  "strip s = rev (dropWhile isspace (rev (dropWhile isspace s)))"

text \<open>\<open>re.sub(r"\s+", " ", s)\<close>: every maximal run of whitespace becomes one space.\<close>

fun collapse_from :: "bool \<Rightarrow> pystr \<Rightarrow> pystr" where
  "collapse_from in_run [] = []"
| "collapse_from in_run (c # cs) =
     (if isspace c then (if in_run then collapse_from True cs else 0x20 # collapse_from True cs)
      else c # collapse_from False cs)"

definition collapse_ws :: "pystr \<Rightarrow> pystr" where
  "collapse_ws s = collapse_from False s"

text \<open>
  \<open>s.lower()\<close> follows the Unicode case tables and is not a map over single characters
  (a capital sigma lowers by its position, a dotted capital I lowers to two code
  points), so the functions that lower a string take \<open>lower\<close> as a parameter.
  \<open>ascii_lower\<close> is what it does on ASCII text.
\<close>

definition ascii_lower :: "pystr \<Rightarrow> pystr" where
  "ascii_lower s = map (\<lambda>c. if 0x41 \<le> c \<and> c \<le> 0x5A then c + 0x20 else c) s"

text \<open>
  Exceptions are values. \<open>InvalidLiteral s\<close> is the \<open>ValueError\<close> that \<open>int(s)\<close> raises;
  \<open>CapabilityFault\<close> stands for whatever a generator or an evaluator raises, which the
  controller does not catch.
\<close>

datatype error = ValueError pystr | InvalidLiteral pystr | IndexError | CapabilityFault pystr

text \<open>
  \<open>int(s)\<close> on a string: whitespace around the literal is dropped (the four separator
  controls \<open>0x1C\<close> to \<open>0x1F\<close> are whitespace to \<open>isspace\<close> but not here), a sign may
  lead, and the rest is decimal digits with single underscores between them. Beyond
  ASCII a digit is any character with a Unicode decimal value; that table is the
  parameter \<open>decimal\<close>, and \<open>no_decimal\<close> is the table restricted to ASCII input. The
  interpreter's optional limit on the number of digits is not modelled.
\<close>

definition digit_value :: "(nat \<Rightarrow> nat option) \<Rightarrow> nat \<Rightarrow> nat option" where
  "digit_value decimal c =
     (if 0x30 \<le> c \<and> c \<le> 0x39 then Some (c - 0x30) else if c < 0x80 then None else decimal c)"

fun int_digits :: "(nat \<Rightarrow> nat option) \<Rightarrow> nat \<Rightarrow> pystr \<Rightarrow> nat option" where
  "int_digits decimal acc [] = Some acc"
| "int_digits decimal acc (c # cs) =
     (if c = 0x5F then
        (case cs of
           [] \<Rightarrow> None
         | c' # cs' \<Rightarrow>
             (case digit_value decimal c' of
                None \<Rightarrow> None
              | Some v \<Rightarrow> int_digits decimal (10 * acc + v) cs'))
      else
        (case digit_value decimal c of
           None \<Rightarrow> None
         | Some v \<Rightarrow> int_digits decimal (10 * acc + v) cs))"

definition int_literal :: "(nat \<Rightarrow> nat option) \<Rightarrow> pystr \<Rightarrow> nat option" where
  "int_literal decimal s =
     (case s of
        [] \<Rightarrow> None
      | c # cs \<Rightarrow> (case digit_value decimal c of
                    None \<Rightarrow> None
                  | Some v \<Rightarrow> int_digits decimal v cs))"

definition int_space :: "nat \<Rightarrow> bool" where
  "int_space c = (isspace c \<and> \<not> (0x1C \<le> c \<and> c \<le> 0x1F))"

definition py_int :: "(nat \<Rightarrow> nat option) \<Rightarrow> pystr \<Rightarrow> error + int" where
  "py_int decimal s =
     (let t = rev (dropWhile int_space (rev (dropWhile int_space s)));
          (negative, body) = (case t of
                                [] \<Rightarrow> (False, [])
                              | c # cs \<Rightarrow> if c = 0x2B then (False, cs)
                                          else if c = 0x2D then (True, cs) else (False, t))
      in case int_literal decimal body of
           None \<Rightarrow> Inl (InvalidLiteral s)
         | Some n \<Rightarrow> Inr (if negative then - int n else int n))"

definition no_decimal :: "nat \<Rightarrow> nat option" where
  "no_decimal c = None"


section \<open>adcp\_payload.py\<close>

text \<open>\<open>contains_emoji\<close> searches for a character in one of two ranges.\<close>

definition contains_emoji :: "pystr \<Rightarrow> bool" where
  "contains_emoji text =
     list_ex (\<lambda>c. (0x2600 \<le> c \<and> c \<le> 0x27BF) \<or> (0x1F300 \<le> c \<and> c \<le> 0x1FAFF)) text"

text \<open>
  The payload is a nested dictionary with fixed keys, one record per level. The key
  \<open>length\<close> of the metadata block is the field \<open>length_md\<close>.
\<close>

record CreativeAsset =
  type :: pystr
  content :: pystr

record Payload =
  target_audience :: pystr
  creative_assets :: "CreativeAsset list"
  product :: pystr

record PayloadMetadata =
  length_md :: int
  word_count :: int
  sentiment :: pystr
  brand_safety_check :: pystr

record AdcpPayload =
  adcp_version :: pystr
  task :: pystr
  payload :: Payload
  metadata :: PayloadMetadata

text \<open>
  \<open>int(meta.get(key, dflt))\<close>: the default is an integer already, a stored value is a
  string that \<open>int\<close> parses or rejects.
\<close>

definition meta_int ::
  "(nat \<Rightarrow> nat option) \<Rightarrow> (pystr \<rightharpoonup> pystr) \<Rightarrow> pystr \<Rightarrow> nat \<Rightarrow> error + int" where
  "meta_int decimal meta key dflt =
     (case meta key of None \<Rightarrow> Inr (int dflt) | Some v \<Rightarrow> py_int decimal v)"

definition build_adcp_payload ::
  "(nat \<Rightarrow> nat option) \<Rightarrow> pystr \<Rightarrow> pystr \<Rightarrow> pystr \<Rightarrow> (pystr \<rightharpoonup> pystr)
   \<Rightarrow> error + AdcpPayload" where
  "build_adcp_payload decimal product' audience' caption' meta =
     (case meta_int decimal meta (lit ''length'') (length caption') of
        Inl err \<Rightarrow> Inl err
      | Inr length' \<Rightarrow>
     (case meta_int decimal meta (lit ''word_count'') (length (py_split caption')) of
        Inl err \<Rightarrow> Inl err
      | Inr word_count' \<Rightarrow>
          Inr \<lparr>adcp_version = lit ''1.0'',
               task = lit ''creative_generation'',
               payload = \<lparr>target_audience = audience',
                           creative_assets = [\<lparr>type = lit ''text_ad'', content = caption'\<rparr>],
                           Payload.product = product'\<rparr>,
               AdcpPayload.metadata =
                 \<lparr>length_md = length',
                  word_count = word_count',
                  sentiment = lit ''energetic'',
                  brand_safety_check =
                    (case meta (lit ''brand_safety_check'') of
                       None \<Rightarrow> lit ''unknown'' | Some v \<Rightarrow> v)\<rparr>\<rparr>))"


section \<open>agents.py\<close>

record Evaluation =
  approved :: bool
  feedback :: pystr
  metadata :: "pystr \<rightharpoonup> pystr"

record Attempt =
  caption :: pystr
  evaluation :: Evaluation

text \<open>
  The creator and the critic are duck-typed objects. Each is modelled by its method as a
  function of the object's own state (\<open>'g\<close>, \<open>'e\<close>), returning the result and the
  object's next state, or the exception raised.
\<close>

type_synonym 'g creator_cap = "'g \<Rightarrow> pystr option \<Rightarrow> error + (pystr \<times> 'g)"
type_synonym 'e critic_cap = "'e \<Rightarrow> pystr \<Rightarrow> error + (Evaluation \<times> 'e)"

subsection \<open>Creator\<close>

record Creator =
  product :: pystr
  audience :: pystr
  attempts :: "Attempt list"
  templates :: "pystr list"

definition Creator_init :: "pystr \<Rightarrow> pystr \<Rightarrow> Creator" where
  "Creator_init product' audience' =
     \<lparr>Creator.product = product', Creator.audience = audience', Creator.attempts = [],
      Creator.templates =
        [lit ''{product}: power up, {audience}! '' @ [0x26A1],
         lit ''Boost with {product} for {audience} '' @ [0x1F680],
         lit ''{audience}, grab {product} and win! '' @ [0x1F3C6],
         lit ''Stay sharp with {product}, {audience}! '' @ [0x2728]]\<rparr>"

text \<open>
  \<open>template.format(product=..., audience=...)\<close> on a template whose only braces are the
  fields \<open>{product}\<close> and \<open>{audience}\<close>, as in the four templates: each field is replaced
  by its argument and everything else is copied.
\<close>

function format_fields :: "pystr \<Rightarrow> pystr \<Rightarrow> pystr \<Rightarrow> pystr" where
  "format_fields [] product' audience' = []"
| "format_fields (c # cs) product' audience' =
     (if startswith (c # cs) (lit ''{product}'')
      then product' @ format_fields (drop 8 cs) product' audience'
      else if startswith (c # cs) (lit ''{audience}'')
      then audience' @ format_fields (drop 9 cs) product' audience'
      else c # format_fields cs product' audience')"
  by pat_completeness auto
termination
  by (relation "measure (\<lambda>(t, p, a). length t)") auto

text \<open>
  \<open>random.choice\<close> draws an index below the length of the list; \<open>k\<close> is the raw draw.
  On an empty list it raises.
\<close>

definition Creator_pick_template :: "Creator \<Rightarrow> nat \<Rightarrow> error + pystr" where
  "Creator_pick_template self k =
     (if Creator.templates self = [] then Inl IndexError
      else Inr (Creator.templates self ! (k mod length (Creator.templates self))))"

definition Creator_apply_feedback ::
  "(pystr \<Rightarrow> pystr) \<Rightarrow> Creator \<Rightarrow> pystr \<Rightarrow> pystr \<Rightarrow> pystr" where
  "Creator_apply_feedback lower self caption0 feedback' =
     (let lowered = lower feedback';
          caption1 = (if py_in (lit ''emoji'') lowered \<and> \<not> contains_emoji caption0
                      then caption0 @ [0x20, 0x1F525] else caption0);
          caption2 = (if py_in (lit ''too long'') lowered \<or> py_in (lit ''under'') lowered
                      then join (lit '' '') (take 15 (py_split caption1)) else caption1);
          caption3 = (if py_in (lit ''mention the product'') lowered
                         \<and> \<not> py_in (lower (Creator.product self)) (lower caption2)
                      then Creator.product self @ lit '' - '' @ strip caption2 else caption2)
      in strip (collapse_ws caption3))"

text \<open>
  \<open>propose\<close>, with the object and the random generator (\<open>rand\<close> gives the next draw and
  the generator's next state) as the state. No method assigns \<open>self.attempts\<close>; the
  object is returned so that this can be stated.
\<close>

definition Creator_propose ::
  "(pystr \<Rightarrow> pystr) \<Rightarrow> ('r \<Rightarrow> nat \<times> 'r) \<Rightarrow> (Creator \<times> 'r) creator_cap" where
  "Creator_propose lower rand = (\<lambda>(self, r) feedback'.
     let fresh = (let (k, r') = rand r
                  in case Creator_pick_template self k of
                       Inl err \<Rightarrow> Inl err
                     | Inr template \<Rightarrow>
                         Inr (format_fields template (Creator.product self)
                                (Creator.audience self), (self, r')))
     in case feedback' of
          None \<Rightarrow> fresh
        | Some fb \<Rightarrow>
            if Creator.attempts self = [] then fresh
            else (let last_caption = Attempt.caption (last (Creator.attempts self))
                  in Inr (Creator_apply_feedback lower self last_caption fb, (self, r))))"

subsection \<open>Critic\<close>

record Critic =
  product :: pystr
  max_words :: int
  blocklist :: "pystr set"

definition Critic_init :: "pystr \<Rightarrow> int \<Rightarrow> Critic" where
  "Critic_init product' max_words' =
     \<lparr>Critic.product = product', Critic.max_words = max_words',
      Critic.blocklist = {lit ''kill'', lit ''violence'', lit ''hate''}\<rparr>"

definition Critic_evaluate :: "(pystr \<Rightarrow> pystr) \<Rightarrow> Critic \<Rightarrow> pystr \<Rightarrow> Evaluation" where
  "Critic_evaluate lower self caption' =
     (let rules_failed0 = [];
          rules_failed1 = (if \<not> contains_emoji caption'
                           then rules_failed0 @ [lit ''Must contain an emoji.'']
                           else rules_failed0);
          word_count' = int (length (py_split caption'));
          rules_failed2 = (if word_count' > Critic.max_words self
                           then rules_failed1 @
                                  [lit ''Too long ('' @ str_int word_count'
                                   @ lit '' words). Keep under ''
                                   @ str_int (Critic.max_words self) @ lit ''.'']
                           else rules_failed1);
          rules_failed3 = (if \<not> py_in (lower (Critic.product self)) (lower caption')
                           then rules_failed2 @ [lit ''Please mention the product by name.'']
                           else rules_failed2);
          rules_failed4 = (if \<exists>term \<in> Critic.blocklist self. py_in term (lower caption')
                           then rules_failed3 @
                                  [lit ''Contains blocked terms; rewrite for brand safety.'']
                           else rules_failed3)
      in if rules_failed4 \<noteq> [] then
           \<lparr>Evaluation.approved = False,
            Evaluation.feedback = join (lit '' '') rules_failed4,
            Evaluation.metadata = [lit ''status'' \<mapsto> lit ''rejected'']\<rparr>
         else
           \<lparr>Evaluation.approved = True,
            Evaluation.feedback = lit ''Approved'',
            Evaluation.metadata =
              [lit ''status'' \<mapsto> lit ''approved'',
               lit ''length'' \<mapsto> str_int (int (length caption')),
               lit ''word_count'' \<mapsto> str_int word_count',
               lit ''brand_safety_check'' \<mapsto> lit ''passed'']\<rparr>)"

text \<open>The critic as the graph sees it: \<open>evaluate\<close> changes nothing in the object.\<close>

definition Critic_cap :: "(pystr \<Rightarrow> pystr) \<Rightarrow> Critic \<Rightarrow> 'e critic_cap" where
  "Critic_cap lower self = (\<lambda>e caption'. Inr (Critic_evaluate lower self caption', e))"

subsection \<open>The model-backed creator and critic\<close>

text \<open>
  A chat client is an object of an external library; it is modelled by the
  configuration it is built with. \<open>LLMCreator\<close> and \<open>LLMCritic\<close> keep the client they are
  handed, or build a local one. What their \<open>propose\<close> and \<open>evaluate\<close> return depends on
  the model behind the client, so \<open>run_workflow\<close> below takes those two methods as
  parameters.
\<close>

datatype llm =
  ChatOpenAI pystr rat "pystr option" "pystr option"
| ChatOllama pystr rat pystr

record LLMCreator =
  product :: pystr
  audience :: pystr
  llm :: llm

record LLMCritic =
  product :: pystr
  max_words :: int
  llm :: llm

definition LLMCreator_init ::
  "pystr \<Rightarrow> pystr \<Rightarrow> pystr \<Rightarrow> rat \<Rightarrow> pystr \<Rightarrow> llm option \<Rightarrow> LLMCreator" where
  "LLMCreator_init product' audience' model temperature base_url llm' =
     \<lparr>LLMCreator.product = product', LLMCreator.audience = audience',
      LLMCreator.llm = (case llm' of Some l \<Rightarrow> l
                        | None \<Rightarrow> ChatOllama model temperature base_url)\<rparr>"

definition LLMCritic_init ::
  "pystr \<Rightarrow> int \<Rightarrow> pystr \<Rightarrow> rat \<Rightarrow> pystr \<Rightarrow> llm option \<Rightarrow> LLMCritic" where
  "LLMCritic_init product' max_words' model temperature base_url llm' =
     \<lparr>LLMCritic.product = product', LLMCritic.max_words = max_words',
      LLMCritic.llm = (case llm' of Some l \<Rightarrow> l
                       | None \<Rightarrow> ChatOllama model temperature base_url)\<rparr>"


section \<open>workflow\_graph.py: the graph state and its nodes\<close>

text \<open>
  \<open>GraphState\<close> is the dictionary threaded through the graph. The nodes read
  \<open>exhausted\<close> with \<open>state.get("exhausted")\<close>, which is falsy when the key is missing
  (the routing test starts from a state without it), so the field is optional and
  \<open>Some True\<close> is the only truthy reading.
\<close>

record GraphState =
  product :: pystr
  audience :: pystr
  caption :: pystr
  feedback :: "pystr option"
  approved :: bool
  attempts :: "Attempt list"
  metadata :: "pystr \<rightharpoonup> pystr"
  exhausted :: "bool option"

definition creator_node ::
  "'g creator_cap \<Rightarrow> 'g \<Rightarrow> GraphState \<Rightarrow> error + (GraphState \<times> 'g)" where
  "creator_node propose g state =
     (if exhausted state = Some True then Inr (state, g)
      else case propose g (GraphState.feedback state) of
             Inl err \<Rightarrow> Inl err
           | Inr (caption', g') \<Rightarrow> Inr (state\<lparr>GraphState.caption := caption'\<rparr>, g'))"

definition critic_node ::
  "'e critic_cap \<Rightarrow> int \<Rightarrow> 'e \<Rightarrow> GraphState \<Rightarrow> error + (GraphState \<times> 'e)" where
  "critic_node evaluate max_attempts e state =
     (if exhausted state = Some True then Inr (state, e)
      else case evaluate e (GraphState.caption state) of
             Inl err \<Rightarrow> Inl err
           | Inr (evaluation', e') \<Rightarrow>
               (let attempts' = attempts state @
                      [\<lparr>Attempt.caption = GraphState.caption state, evaluation = evaluation'\<rparr>];
                    exhausted' = (int (length attempts') \<ge> max_attempts
                                  \<and> \<not> Evaluation.approved evaluation')
                in if exhausted' then
                     Inr (state\<lparr>GraphState.feedback :=
                                   Some (lit ''Attempt budget exhausted after ''
                                         @ str_int max_attempts
                                         @ lit '' tries. ''
                                         @ lit ''Last feedback: ''
                                         @ Evaluation.feedback evaluation'),
                                 GraphState.approved := False,
                                 attempts := attempts',
                                 GraphState.metadata :=
                                   (Evaluation.metadata evaluation')
                                     (lit ''status'' \<mapsto> lit ''rejected'',
                                      lit ''exhausted'' \<mapsto> lit ''true''),
                                 exhausted := Some True\<rparr>, e')
                   else
                     Inr (state\<lparr>GraphState.feedback := Some (Evaluation.feedback evaluation'),
                                 GraphState.approved := Evaluation.approved evaluation',
                                 attempts := attempts',
                                 GraphState.metadata := Evaluation.metadata evaluation',
                                 exhausted := Some False\<rparr>, e')))"

definition route :: "GraphState \<Rightarrow> string" where
  "route state =
     (if exhausted state = Some True then ''done''
      else if GraphState.approved state then ''done'' else ''retry'')"

text \<open>The state \<open>run_workflow\<close> starts the graph from.\<close>

definition initial_state :: "pystr \<Rightarrow> pystr \<Rightarrow> GraphState" where
  "initial_state product' audience' =
     \<lparr>product = product', audience = audience', caption = [], feedback = None,
      approved = False, attempts = [], metadata = Map.empty, exhausted = Some False\<rparr>"

section \<open>workflow\_graph.py: the compiled graph\<close>

text \<open>
  \<open>build_graph\<close> wires start to the creator node, the creator node to the critic node,
  and the critic node through \<open>_route\<close> either to the end or back to the creator node.
  \<open>graph_pass\<close> is one trip through both nodes; \<open>invoke\<close> repeats it until the
  route is "done" and returns the final state with the two objects as the calls left
  them, or the exception a call raised. \<open>iterations\<close> follows the same recursion and
  counts the trips. Both are total: a retry leaves the history one longer and still
  below the budget, so the distance to the budget shrinks. Any step limit of the graph
  engine itself lies outside this model.
\<close>

definition graph_pass ::
  "'g creator_cap \<Rightarrow> 'e critic_cap \<Rightarrow> int \<Rightarrow> 'g \<Rightarrow> 'e \<Rightarrow> GraphState
   \<Rightarrow> error + (GraphState \<times> 'g \<times> 'e)" where
  "graph_pass propose evaluate max_attempts g e state =
     (case creator_node propose g state of
        Inl err \<Rightarrow> Inl err
      | Inr (s1, g1) \<Rightarrow>
          (case critic_node evaluate max_attempts e s1 of
             Inl err \<Rightarrow> Inl err
           | Inr (s2, e2) \<Rightarrow> Inr (s2, g1, e2)))"

lemma creator_node_keeps:
  "creator_node propose g s = Inr (s1, g1) \<Longrightarrow>
     attempts s1 = attempts s \<and> exhausted s1 = exhausted s \<and>
     GraphState.approved s1 = GraphState.approved s"
  by (auto simp: creator_node_def split: if_splits sum.splits)

lemma critic_node_retry:
  "critic_node evaluate m e s1 = Inr (s2, e2) \<Longrightarrow> route s2 \<noteq> ''done'' \<Longrightarrow>
     length (attempts s2) = Suc (length (attempts s1)) \<and> int (length (attempts s2)) < m"
  by (auto simp: critic_node_def route_def Let_def split: if_splits sum.splits)

lemma graph_pass_retry:
  "graph_pass propose evaluate m g e s = Inr (s2, g1, e2) \<Longrightarrow> route s2 \<noteq> ''done'' \<Longrightarrow>
     length (attempts s2) = Suc (length (attempts s)) \<and> int (length (attempts s2)) < m"
  by (auto simp: graph_pass_def split: sum.splits dest!: creator_node_keeps critic_node_retry)

function invoke ::
  "'g creator_cap \<Rightarrow> 'e critic_cap \<Rightarrow> int \<Rightarrow> 'g \<Rightarrow> 'e \<Rightarrow> GraphState
   \<Rightarrow> error + (GraphState \<times> 'g \<times> 'e)" where
  "invoke propose evaluate max_attempts g e state =
     (case graph_pass propose evaluate max_attempts g e state of
        Inl err \<Rightarrow> Inl err
      | Inr (s2, g1, e2) \<Rightarrow>
          if route s2 = ''done'' then Inr (s2, g1, e2)
          else invoke propose evaluate max_attempts g1 e2 s2)"
  by pat_completeness auto
termination
  by (relation "measure (\<lambda>(propose, evaluate, m, g, e, s).
                   nat (m - int (length (attempts s))))")
     (auto dest!: graph_pass_retry)

function iterations ::
  "'g creator_cap \<Rightarrow> 'e critic_cap \<Rightarrow> int \<Rightarrow> 'g \<Rightarrow> 'e \<Rightarrow> GraphState \<Rightarrow> nat" where
  "iterations propose evaluate max_attempts g e state =
     (case graph_pass propose evaluate max_attempts g e state of
        Inl err \<Rightarrow> 1
      | Inr (s2, g1, e2) \<Rightarrow>
          if route s2 = ''done'' then 1
          else Suc (iterations propose evaluate max_attempts g1 e2 s2))"
  by pat_completeness auto
termination
  by (relation "measure (\<lambda>(propose, evaluate, m, g, e, s).
                   nat (m - int (length (attempts s))))")
     (auto dest!: graph_pass_retry)

declare invoke.simps [simp del] iterations.simps [simp del]


text \<open>
  \<open>_build_llm\<close> and \<open>run_workflow\<close>. Both clients are built before anything else. The
  creator and the critic are then chosen by mode; the two creators keep state of
  different types, so the choice of the creator is the last step here, each branch
  running the graph from the initial state and returning the final state.
\<close>

definition build_llm ::
  "pystr \<Rightarrow> pystr \<Rightarrow> rat \<Rightarrow> pystr \<Rightarrow> pystr option \<Rightarrow> pystr option \<Rightarrow> error + llm" where
  "build_llm provider model temperature base_url api_key openai_base_url =
     (if provider = lit ''openai'' then
        (if py_in (lit '':'') model then
           Inl (ValueError
                  (lit ''provider=openai but model looks like an Ollama tag (e.g. llama3:8b). ''
                   @ lit ''Use an OpenAI model name (e.g. gpt-4o-mini, gpt-4.1-mini, etc.).''))
         else Inr (ChatOpenAI model temperature api_key openai_base_url))
      else Inr (ChatOllama model temperature base_url))"

definition run_graph ::
  "'g creator_cap \<Rightarrow> 'g \<Rightarrow> 'e critic_cap \<Rightarrow> 'e \<Rightarrow> int \<Rightarrow> pystr \<Rightarrow> pystr
   \<Rightarrow> error + GraphState" where
  "run_graph creator g critic e max_attempts product' audience' =
     (case invoke creator critic max_attempts g e (initial_state product' audience') of
        Inl err \<Rightarrow> Inl err
      | Inr (final_state, g', e') \<Rightarrow> Inr final_state)"

definition run_workflow ::
  "(LLMCreator \<Rightarrow> 'g creator_cap) \<Rightarrow> (LLMCritic \<Rightarrow> 'e critic_cap) \<Rightarrow> (pystr \<Rightarrow> pystr)
   \<Rightarrow> ('r \<Rightarrow> nat \<times> 'r) \<Rightarrow> 'g \<Rightarrow> 'r \<Rightarrow> 'e
   \<Rightarrow> pystr \<Rightarrow> pystr \<Rightarrow> int \<Rightarrow> pystr \<Rightarrow> pystr \<Rightarrow> pystr \<Rightarrow> rat \<Rightarrow> pystr \<Rightarrow> pystr
   \<Rightarrow> pystr option \<Rightarrow> pystr option \<Rightarrow> error + GraphState" where
  "run_workflow llm_propose llm_evaluate lower rand g r e
       product' audience' max_attempts creator_mode critic_mode model temperature base_url
       provider api_key openai_base_url =
     (case build_llm provider model temperature base_url api_key openai_base_url of
        Inl err \<Rightarrow> Inl err
      | Inr creator_llm \<Rightarrow>
     (case build_llm provider model 0 base_url api_key openai_base_url of
        Inl err \<Rightarrow> Inl err
      | Inr critic_llm \<Rightarrow>
          (let critic =
                 (if critic_mode = lit ''llm''
                  then llm_evaluate (LLMCritic_init product' 15 model 0 base_url (Some critic_llm))
                  else Critic_cap lower (Critic_init product' 15))
           in if creator_mode = lit ''llm''
              then run_graph
                     (llm_propose (LLMCreator_init product' audience' model temperature base_url
                                     (Some creator_llm)))
                     g critic e max_attempts product' audience'
              else run_graph (Creator_propose lower rand) (Creator_init product' audience', r)
                     critic e max_attempts product' audience')))"


text \<open>
  The states a run can be in: the initial state, and whatever a node returns from such
  a state, for any response of the creator or the critic and any budget. A response is
  chosen afresh at every step, so objects without state of their own cover every
  behaviour.
\<close>

inductive reachable :: "pystr \<Rightarrow> pystr \<Rightarrow> GraphState \<Rightarrow> bool"
  for product' audience' where
  start: "reachable product' audience' (initial_state product' audience')"
| creator_step:
    "reachable product' audience' s \<Longrightarrow> creator_node propose () s = Inr (s', ())
     \<Longrightarrow> reachable product' audience' s'"
| critic_step:
    "reachable product' audience' s \<Longrightarrow> critic_node evaluate max_attempts () s = Inr (s', ())
     \<Longrightarrow> reachable product' audience' s'"

text \<open>Test doubles: a creator and a critic that always raise, and ones that answer.\<close>

definition failing_creator :: "unit creator_cap" where
  "failing_creator g fb = Inl (CapabilityFault (lit ''creator called''))"

definition failing_critic :: "unit critic_cap" where
  "failing_critic e c = Inl (CapabilityFault (lit ''critic called''))"

definition fallback_creator :: "unit creator_cap" where
  "fallback_creator g fb = Inr (lit ''fallback'', ())"

definition always_reject :: "Evaluation" where
  "always_reject = \<lparr>Evaluation.approved = False, feedback = lit ''Always reject'',
                     metadata = [lit ''status'' \<mapsto> lit ''rejected'']\<rparr>"

definition AlwaysRejectCritic :: "unit critic_cap" where
  "AlwaysRejectCritic e c = Inr (always_reject, ())"


definition approved_eval :: Evaluation where
  "approved_eval = \<lparr>Evaluation.approved = True, feedback = lit ''Approved'',
                     metadata = [lit ''status'' \<mapsto> lit ''approved'']\<rparr>"

definition approved_state :: GraphState where
  "approved_state =
     \<lparr>product = lit ''Prod'', audience = lit ''QA'', caption = lit ''this one is ok'',
      feedback = Some (lit ''Approved''), approved = True,
      attempts = [\<lparr>Attempt.caption = lit ''this one is ok'', evaluation = approved_eval\<rparr>],
      metadata = [lit ''status'' \<mapsto> lit ''approved''], exhausted = Some False\<rparr>"


text \<open>The creator and the critic of the routing test.\<close>

definition SequenceCreator :: "pystr list creator_cap" where
  "SequenceCreator captions fb =
     (case captions of [] \<Rightarrow> Inr (lit ''fallback'', []) | c # cs \<Rightarrow> Inr (c, cs))"

definition FlakyCritic :: "pystr \<Rightarrow> unit critic_cap" where
  "FlakyCritic ok e caption' =
     (if py_in ok caption' then Inr (approved_eval, e)
      else Inr (\<lparr>Evaluation.approved = False, feedback = lit ''Needs keyword'',
                 metadata = [lit ''status'' \<mapsto> lit ''rejected'']\<rparr>, e))"

definition no_llm_creator :: "LLMCreator \<Rightarrow> unit creator_cap" where
  "no_llm_creator self = failing_creator"

definition no_llm_critic :: "LLMCritic \<Rightarrow> unit critic_cap" where
  "no_llm_critic self = failing_critic"

definition first_choice :: "unit \<Rightarrow> nat \<times> unit" where
  "first_choice r = (0, ())"

definition second_choice :: "nat \<Rightarrow> nat \<times> nat" where
  "second_choice r = (1, Suc r)"

text \<open>
  The critic's rules as the specification lists them: each rule with the message of its
  failure, in the fixed order; \<open>failed_rules\<close> keeps the messages of the rules that fail.
\<close>

definition failed_rules :: "(pystr \<Rightarrow> pystr) \<Rightarrow> Critic \<Rightarrow> pystr \<Rightarrow> pystr list" where
  "failed_rules lower self caption' =
     map snd (filter fst
       [(\<not> contains_emoji caption', lit ''Must contain an emoji.''),
        (int (length (py_split caption')) > Critic.max_words self,
           lit ''Too long ('' @ str_int (int (length (py_split caption')))
           @ lit '' words). Keep under '' @ str_int (Critic.max_words self) @ lit ''.''),
        (\<not> py_in (lower (Critic.product self)) (lower caption'),
           lit ''Please mention the product by name.''),
        (\<exists>term \<in> Critic.blocklist self. py_in term (lower caption'),
           lit ''Contains blocked terms; rewrite for brand safety.'')])"

text \<open>The four templates with the product and the audience filled in.\<close>

definition template_captions :: "pystr \<Rightarrow> pystr \<Rightarrow> pystr list" where
  "template_captions product' audience' =
     [product' @ lit '': power up, '' @ audience' @ lit ''! '' @ [0x26A1],
      lit ''Boost with '' @ product' @ lit '' for '' @ audience' @ [0x20, 0x1F680],
      audience' @ lit '', grab '' @ product' @ lit '' and win! '' @ [0x1F3C6],
      lit ''Stay sharp with '' @ product' @ lit '', '' @ audience' @ lit ''! '' @ [0x2728]]"


section \<open>Facts about the loop\<close>

lemma iterations_bound:
  "iterations propose evaluate m g e s \<le> max 1 (nat (m - int (length (attempts s))))"
proof (induction propose evaluate m g e s rule: iterations.induct)
  case (1 propose evaluate m g e s)
  show ?case
  proof (cases "graph_pass propose evaluate m g e s")
    case (Inl err)
    then show ?thesis by (subst iterations.simps) simp
  next
    case (Inr r)
    obtain s2 g1 e2 where r: "r = (s2, g1, e2)" by (cases r)
    note gp = Inr [unfolded r]
    show ?thesis
    proof (cases "route s2 = ''done''")
      case True
      have "iterations propose evaluate m g e s = 1"
        by (subst iterations.simps) (simp add: gp True)
      then show ?thesis by simp
    next
      case False
      from graph_pass_retry [OF gp False]
      have len: "length (attempts s2) = Suc (length (attempts s))"
        and lt: "int (length (attempts s2)) < m" by simp_all
      from "1.IH" [OF gp refl refl False]
      have ih: "iterations propose evaluate m g1 e2 s2
              \<le> max 1 (nat (m - int (length (attempts s2))))" .
      have eq: "iterations propose evaluate m g e s
                  = Suc (iterations propose evaluate m g1 e2 s2)"
        by (subst iterations.simps) (simp add: gp False)
      from ih len lt show ?thesis unfolding eq by linarith
    qed
  qed
qed

lemma invoke_done:
  "invoke propose evaluate m g e s = Inr (s', g', e') \<Longrightarrow> route s' = ''done''"
proof (induction propose evaluate m g e s rule: invoke.induct)
  case (1 propose evaluate m g e s)
  show ?case
  proof (cases "graph_pass propose evaluate m g e s")
    case (Inl err)
    with "1.prems" show ?thesis by (subst (asm) invoke.simps) simp
  next
    case (Inr r)
    obtain s2 g1 e2 where r: "r = (s2, g1, e2)" by (cases r)
    note gp = Inr [unfolded r]
    show ?thesis
    proof (cases "route s2 = ''done''")
      case True
      have "invoke propose evaluate m g e s = Inr (s2, g1, e2)"
        by (subst invoke.simps) (simp add: gp True)
      with "1.prems" True show ?thesis by simp
    next
      case False
      have "invoke propose evaluate m g e s = invoke propose evaluate m g1 e2 s2"
        by (subst invoke.simps) (simp add: gp False)
      with "1.prems" "1.IH" [OF gp refl refl False] show ?thesis by simp
    qed
  qed
qed

lemma graph_pass_appends:
  assumes "graph_pass propose evaluate m g e s = Inr (s2, g1, e2)"
    and "exhausted s \<noteq> Some True"
  shows "\<exists>a. attempts s2 = attempts s @ [a]"
  using assms
  by (auto simp: graph_pass_def creator_node_def critic_node_def Let_def
           split: sum.splits if_splits)

lemma invoke_history:
  "invoke propose evaluate m g e s = Inr (s', g', e') \<Longrightarrow> exhausted s \<noteq> Some True \<Longrightarrow>
     length (attempts s') = length (attempts s) + iterations propose evaluate m g e s \<and>
     take (length (attempts s)) (attempts s') = attempts s"
proof (induction propose evaluate m g e s rule: invoke.induct)
  case (1 propose evaluate m g e s)
  show ?case
  proof (cases "graph_pass propose evaluate m g e s")
    case (Inl err)
    with "1.prems" show ?thesis by (subst (asm) invoke.simps) simp
  next
    case (Inr r)
    obtain s2 g1 e2 where r: "r = (s2, g1, e2)" by (cases r)
    note gp = Inr [unfolded r]
    from graph_pass_appends [OF gp "1.prems"(2)]
    obtain a where app: "attempts s2 = attempts s @ [a]" by blast
    show ?thesis
    proof (cases "route s2 = ''done''")
      case True
      have "invoke propose evaluate m g e s = Inr (s2, g1, e2)"
        by (subst invoke.simps) (simp add: gp True)
      moreover have "iterations propose evaluate m g e s = 1"
        by (subst iterations.simps) (simp add: gp True)
      ultimately show ?thesis using "1.prems"(1) app by simp
    next
      case False
      have inv: "invoke propose evaluate m g e s = invoke propose evaluate m g1 e2 s2"
        by (subst invoke.simps) (simp add: gp False)
      have it: "iterations propose evaluate m g e s
                  = Suc (iterations propose evaluate m g1 e2 s2)"
        by (subst iterations.simps) (simp add: gp False)
      from False have ne: "exhausted s2 \<noteq> Some True"
        by (auto simp: route_def)
      from "1.IH" [OF gp refl refl False _ ne] "1.prems"(1) inv
      have ih: "length (attempts s') = length (attempts s2)
                   + iterations propose evaluate m g1 e2 s2"
        and tk: "take (length (attempts s2)) (attempts s') = attempts s2"
        by simp_all
      from tk app have "take (length (attempts s)) (attempts s') = attempts s"
        by (metis append_eq_conv_conj append.assoc append_take_drop_id)
      with ih app it show ?thesis by simp
    qed
  qed
qed


lemma py_in_startswith: "startswith s sub \<Longrightarrow> py_in sub s"
  by (cases s) (auto simp: startswith_def)

lemma py_in_prefix: "py_in sub (sub @ rest)"
  by (rule py_in_startswith) (simp add: startswith_def)

lemmas eval_defs = graph_pass_def creator_node_def critic_node_def route_def
  initial_state_def fallback_creator_def AlwaysRejectCritic_def always_reject_def Let_def


text \<open>
  The routing test: two captions, the second approved, from a state without the
  \<open>exhausted\<close> key.
\<close>

lemma routing_retries_until_approved:
  "\<exists>s'. invoke SequenceCreator (FlakyCritic (lit ''ok'')) 3
            [lit ''bad caption'', lit ''this one is ok''] ()
            ((initial_state (lit ''Prod'') (lit ''QA''))\<lparr>exhausted := None\<rparr>)
          = Inr (s', [], ()) \<and>
        GraphState.approved s' \<and> length (attempts s') = 2 \<and>
        py_in (lit ''ok'') (GraphState.caption s')"
  by (simp add: invoke.simps graph_pass_def creator_node_def critic_node_def route_def
        initial_state_def SequenceCreator_def FlakyCritic_def approved_eval_def Let_def
        lit_def startswith_def)


section \<open>The evaluate step\<close>

text \<open>
  C4. On an evaluate step (the state is not yet exhausted and the critic returns a
  verdict): when the verdict is rejected and the history, with this attempt appended,
  is at least \<open>max_attempts\<close> long, the step sets \<open>exhausted\<close>, clears \<open>approved\<close>, sets the
  feedback to "Attempt budget exhausted after N tries. Last feedback: R" and sets the
  metadata to the verdict's, overridden with status=rejected and exhausted=true;
  otherwise it copies the verdict's flag, feedback and metadata.
\<close>

theorem critic_node_evaluate_step:
  assumes "exhausted state \<noteq> Some True"
    and "evaluate e (GraphState.caption state) = Inr (ev, e')"
  shows "\<exists>s'. critic_node evaluate max_attempts e state = Inr (s', e') \<and>
           (if int (length (attempts state)) + 1 \<ge> max_attempts \<and> \<not> Evaluation.approved ev
            then exhausted s' = Some True \<and> \<not> GraphState.approved s' \<and>
                 GraphState.feedback s' =
                   Some (lit ''Attempt budget exhausted after '' @ str_int max_attempts
                         @ lit '' tries. Last feedback: '' @ Evaluation.feedback ev) \<and>
                 GraphState.metadata s' =
                   Evaluation.metadata ev ++ [lit ''status'' \<mapsto> lit ''rejected'',
                                              lit ''exhausted'' \<mapsto> lit ''true'']
            else exhausted s' = Some False \<and>
                 GraphState.approved s' = Evaluation.approved ev \<and>
                 GraphState.feedback s' = Some (Evaluation.feedback ev) \<and>
                 GraphState.metadata s' = Evaluation.metadata ev)"
  using assms
  by (simp add: critic_node_def Let_def lit_def map_add_def fun_eq_iff)

theorem critic_node_evaluate_step_witness:
  "\<exists>s'. critic_node AlwaysRejectCritic 0 () (initial_state (lit ''Prod'') (lit ''QA''))
           = Inr (s', ()) \<and>
         exhausted s' = Some True \<and> \<not> GraphState.approved s' \<and>
         GraphState.feedback s' =
           Some (lit ''Attempt budget exhausted after 0 tries. Last feedback: Always reject'')"
  using critic_node_evaluate_step
          [of "initial_state (lit ''Prod'') (lit ''QA'')" AlwaysRejectCritic "()"
              always_reject "()" 0]
  by (auto simp add: initial_state_def AlwaysRejectCritic_def always_reject_def lit_def
                     str_int_def)


section \<open>Termination within the budget\<close>

text \<open>
  C1. For every creator and critic, also ones that raise, and every budget \<open>N \<ge> 1\<close>, a
  run from the initial state makes at most \<open>N\<close> trips through the creator and critic
  nodes; \<open>invoke\<close> is total, so every run ends; a run that ends with a state ends
  approved or exhausted; and a trip that is routed to "retry" has made the history
  exactly one longer and left it shorter than \<open>N\<close>.
\<close>

theorem budget_bound:
  assumes "1 \<le> N"
  shows "iterations propose evaluate N g e (initial_state p a) \<le> nat N \<and>
         (\<forall>s' g' e'. invoke propose evaluate N g e (initial_state p a) = Inr (s', g', e')
            \<longrightarrow> GraphState.approved s' \<or> exhausted s' = Some True) \<and>
         (\<forall>s g0 e0 s2 g1 e2.
            graph_pass propose evaluate N g0 e0 s = Inr (s2, g1, e2) \<and> route s2 = ''retry''
            \<longrightarrow> length (attempts s2) = Suc (length (attempts s)) \<and>
                int (length (attempts s2)) < N)"
proof (intro conjI allI impI)
  from iterations_bound [of propose evaluate N g e "initial_state p a"] assms
  show "iterations propose evaluate N g e (initial_state p a) \<le> nat N"
    by (simp add: initial_state_def)
next
  fix s' g' e'
  assume "invoke propose evaluate N g e (initial_state p a) = Inr (s', g', e')"
  from invoke_done [OF this]
  show "GraphState.approved s' \<or> exhausted s' = Some True"
    by (auto simp: route_def split: if_splits)
next
  fix s g0 e0 s2 g1 e2
  assume h: "graph_pass propose evaluate N g0 e0 s = Inr (s2, g1, e2) \<and> route s2 = ''retry''"
  then have "route s2 \<noteq> ''done''" by simp
  from graph_pass_retry [OF conjunct1 [OF h] this]
  show "length (attempts s2) = Suc (length (attempts s))"
    and "int (length (attempts s2)) < N" by simp_all
qed

theorem budget_bound_witness:
  "(1::int) \<le> 3 \<and>
   iterations fallback_creator AlwaysRejectCritic 3 () () (initial_state (lit ''Prod'') (lit ''QA''))
     = 3 \<and>
   (\<exists>s'. invoke fallback_creator AlwaysRejectCritic 3 () ()
            (initial_state (lit ''Prod'') (lit ''QA'')) = Inr (s', (), ()) \<and>
          exhausted s' = Some True \<and> length (attempts s') = 3)"
proof -
  have b: "iterations fallback_creator AlwaysRejectCritic 3 () ()
             (initial_state (lit ''Prod'') (lit ''QA'')) \<le> nat 3"
    using budget_bound [of 3 fallback_creator AlwaysRejectCritic "()" "()"
                           "lit ''Prod''" "lit ''QA''"] by simp
  have i: "iterations fallback_creator AlwaysRejectCritic 3 () ()
             (initial_state (lit ''Prod'') (lit ''QA'')) = 3"
    by (simp add: iterations.simps eval_defs)
  have v: "\<exists>s'. invoke fallback_creator AlwaysRejectCritic 3 () ()
            (initial_state (lit ''Prod'') (lit ''QA'')) = Inr (s', (), ()) \<and>
          exhausted s' = Some True \<and> length (attempts s') = 3"
    by (simp add: invoke.simps eval_defs)
  from b i v show ?thesis by simp
qed

text \<open>
  C3. With a budget of 0 and a creator and critic that answer, a run from the initial
  state makes one trip: one \<open>propose\<close> call (with no feedback) and one \<open>evaluate\<close> call,
  leaving the two objects as those single calls left them. The history holds that one
  attempt. A rejected verdict ends the run exhausted and not approved, with a feedback
  that contains "Attempt budget exhausted"; an approved one ends it approved.
\<close>

theorem zero_budget_single_pass:
  assumes "propose g None = Inr (c, g')" and "evaluate e c = Inr (ev, e')"
  shows "iterations propose evaluate 0 g e (initial_state p a) = 1 \<and>
         (\<exists>s'. invoke propose evaluate 0 g e (initial_state p a) = Inr (s', g', e') \<and>
            attempts s' = [\<lparr>Attempt.caption = c, evaluation = ev\<rparr>] \<and>
            (if Evaluation.approved ev
             then GraphState.approved s' \<and> exhausted s' = Some False
             else exhausted s' = Some True \<and> \<not> GraphState.approved s' \<and>
                  (\<exists>fb. GraphState.feedback s' = Some fb \<and>
                        py_in (lit ''Attempt budget exhausted'') fb)))"
proof -
  let ?s0 = "initial_state p a"
  obtain s' where gp: "graph_pass propose evaluate 0 g e ?s0 = Inr (s', g', e')"
    and at: "attempts s' = [\<lparr>Attempt.caption = c, evaluation = ev\<rparr>]"
    and ok: "Evaluation.approved ev \<Longrightarrow> GraphState.approved s' \<and> exhausted s' = Some False"
    and no: "\<not> Evaluation.approved ev \<Longrightarrow> exhausted s' = Some True \<and> \<not> GraphState.approved s' \<and>
               GraphState.feedback s' = Some (lit ''Attempt budget exhausted'' @
                  (lit '' after '' @ str_int 0 @ lit '' tries. '' @ lit ''Last feedback: ''
                   @ Evaluation.feedback ev))"
    using assms
    by (cases "Evaluation.approved ev")
       (simp_all add: graph_pass_def creator_node_def critic_node_def initial_state_def
                      Let_def lit_def)
  have dn: "route s' = ''done''"
    using ok no by (cases "Evaluation.approved ev") (simp_all add: route_def)
  have it: "iterations propose evaluate 0 g e ?s0 = 1"
    by (subst iterations.simps) (simp add: gp dn)
  have iv: "invoke propose evaluate 0 g e ?s0 = Inr (s', g', e')"
    by (subst invoke.simps) (simp add: gp dn)
  have "\<not> Evaluation.approved ev \<Longrightarrow>
          \<exists>fb. GraphState.feedback s' = Some fb \<and> py_in (lit ''Attempt budget exhausted'') fb"
    using no py_in_prefix by blast
  with it iv at ok no show ?thesis by auto
qed

theorem zero_budget_single_pass_witness:
  "iterations fallback_creator AlwaysRejectCritic 0 () ()
     (initial_state (lit ''Prod'') (lit ''QA'')) = 1 \<and>
   (\<exists>s'. invoke fallback_creator AlwaysRejectCritic 0 () ()
            (initial_state (lit ''Prod'') (lit ''QA'')) = Inr (s', (), ()) \<and>
          exhausted s' = Some True \<and> \<not> GraphState.approved s' \<and>
          (\<exists>fb. GraphState.feedback s' = Some fb \<and>
                py_in (lit ''Attempt budget exhausted'') fb))"
  using zero_budget_single_pass
          [of fallback_creator "()" "lit ''fallback''" "()" AlwaysRejectCritic "()"
              always_reject "()" "lit ''Prod''" "lit ''QA''"]
  by (auto simp add: fallback_creator_def AlwaysRejectCritic_def always_reject_def)


section \<open>Invariants of the state\<close>

text \<open>
  C2. No state reachable from the initial state, by any sequence of node transitions,
  is both approved and exhausted.
\<close>

theorem terminal_flags_exclusive:
  "reachable p a s \<Longrightarrow> \<not> (GraphState.approved s \<and> exhausted s = Some True)"
proof (induction rule: reachable.induct)
  case start
  show ?case by (simp add: initial_state_def)
next
  case (creator_step s propose s')
  then show ?case
    by (auto simp: creator_node_def split: if_splits sum.splits)
next
  case (critic_step s evaluate max_attempts s')
  then show ?case
    by (auto simp: critic_node_def Let_def split: if_splits sum.splits)
qed

theorem terminal_flags_exclusive_witness:
  "reachable (lit ''Prod'') (lit ''QA'') approved_state \<and>
   \<not> (GraphState.approved approved_state \<and> exhausted approved_state = Some True)"
proof -
  let ?s0 = "initial_state (lit ''Prod'') (lit ''QA'')"
  let ?s1 = "?s0\<lparr>caption := lit ''this one is ok''\<rparr>"
  have r0: "reachable (lit ''Prod'') (lit ''QA'') ?s0" by (rule reachable.start)
  have "creator_node (\<lambda>g fb. Inr (lit ''this one is ok'', ())) () ?s0 = Inr (?s1, ())"
    by (simp add: creator_node_def initial_state_def)
  from reachable.creator_step [OF r0 this]
  have r1: "reachable (lit ''Prod'') (lit ''QA'') ?s1" .
  have "critic_node (\<lambda>e c. Inr (approved_eval, ())) 3 () ?s1 = Inr (approved_state, ())"
    by (simp add: critic_node_def initial_state_def approved_state_def approved_eval_def Let_def)
  from reachable.critic_step [OF r1 this]
  have r2: "reachable (lit ''Prod'') (lit ''QA'') approved_state" .
  from terminal_flags_exclusive [OF r2] r2 show ?thesis by simp
qed

text \<open>
  C7. The history only grows at its end. The creator node leaves it alone; the critic
  node leaves it alone on an exhausted state and otherwise appends exactly one attempt,
  the current caption with the verdict the critic returned for it. A run that ends
  with a state has kept the history it started with as a prefix and added one attempt
  per trip, so from the initial state the final history is as long as the number of
  trips.
\<close>

theorem history_append_only:
  "(creator_node propose g s = Inr (s1, g1) \<longrightarrow> attempts s1 = attempts s) \<and>
   (critic_node evaluate m e s = Inr (s2, e2) \<longrightarrow>
      (if exhausted s = Some True then attempts s2 = attempts s
       else \<exists>ev. evaluate e (GraphState.caption s) = Inr (ev, e2) \<and>
                 attempts s2 = attempts s @
                   [\<lparr>Attempt.caption = GraphState.caption s, evaluation = ev\<rparr>])) \<and>
   (exhausted s \<noteq> Some True \<and> invoke propose evaluate m g e s = Inr (s', g', e') \<longrightarrow>
      length (attempts s') = length (attempts s) + iterations propose evaluate m g e s \<and>
      take (length (attempts s)) (attempts s') = attempts s) \<and>
   (invoke propose evaluate m g e (initial_state p a) = Inr (s', g', e') \<longrightarrow>
      length (attempts s') = iterations propose evaluate m g e (initial_state p a))"
proof (intro conjI impI)
  assume "creator_node propose g s = Inr (s1, g1)"
  then show "attempts s1 = attempts s" by (simp add: creator_node_keeps)
next
  assume "critic_node evaluate m e s = Inr (s2, e2)"
  then show "if exhausted s = Some True then attempts s2 = attempts s
       else \<exists>ev. evaluate e (GraphState.caption s) = Inr (ev, e2) \<and>
                 attempts s2 = attempts s @
                   [\<lparr>Attempt.caption = GraphState.caption s, evaluation = ev\<rparr>]"
    by (auto simp: critic_node_def Let_def split: if_splits sum.splits)
next
  assume h: "exhausted s \<noteq> Some True \<and> invoke propose evaluate m g e s = Inr (s', g', e')"
  from invoke_history [OF conjunct2 [OF h] conjunct1 [OF h]]
  show "length (attempts s') = length (attempts s) + iterations propose evaluate m g e s"
    and "take (length (attempts s)) (attempts s') = attempts s" by simp_all
next
  assume h: "invoke propose evaluate m g e (initial_state p a) = Inr (s', g', e')"
  have "exhausted (initial_state p a) \<noteq> Some True" by (simp add: initial_state_def)
  from invoke_history [OF h this]
  show "length (attempts s') = iterations propose evaluate m g e (initial_state p a)"
    by (simp add: initial_state_def)
qed

theorem history_append_only_witness:
  "\<exists>s'. invoke fallback_creator AlwaysRejectCritic 2 () ()
            (initial_state (lit ''Prod'') (lit ''QA'')) = Inr (s', (), ()) \<and>
        iterations fallback_creator AlwaysRejectCritic 2 () ()
            (initial_state (lit ''Prod'') (lit ''QA'')) = 2 \<and>
        length (attempts s') = 2"
proof -
  obtain s' where iv: "invoke fallback_creator AlwaysRejectCritic 2 () ()
            (initial_state (lit ''Prod'') (lit ''QA'')) = Inr (s', (), ())"
    by (simp add: invoke.simps eval_defs)
  have it: "iterations fallback_creator AlwaysRejectCritic 2 () ()
            (initial_state (lit ''Prod'') (lit ''QA'')) = 2"
    by (simp add: iterations.simps eval_defs)
  from history_append_only
         [of fallback_creator "()" "initial_state (lit ''Prod'') (lit ''QA'')" _ _
             AlwaysRejectCritic 2 "()" _ _ s' "()" "()" "lit ''Prod''" "lit ''QA''"] iv it
  have "length (attempts s') = 2" by simp
  with iv it show ?thesis by simp
qed


section \<open>Nodes on a terminal state\<close>





section \<open>The rule-based critic\<close>

text \<open>
  C6. For every caption, \<open>Critic.evaluate\<close> checks the four rules in the fixed order
  (emoji, word count against the maximum, product name, blocklist, the last two on the
  lowered strings). When no rule fails the verdict is approved, with the feedback
  "Approved" and the attributes status=approved, length, word\_count and
  brand\_safety\_check=passed, and nothing else. When a rule fails the verdict is
  rejected, the feedback is the messages of the failed rules in that order joined by
  spaces, and the only attribute is status=rejected.
\<close>

theorem Critic_evaluate_rules:
  "Critic_evaluate lower self c =
     (if failed_rules lower self c = [] then
        \<lparr>Evaluation.approved = True, Evaluation.feedback = lit ''Approved'',
         Evaluation.metadata =
           [lit ''status'' \<mapsto> lit ''approved'',
            lit ''length'' \<mapsto> str_int (int (length c)),
            lit ''word_count'' \<mapsto> str_int (int (length (py_split c))),
            lit ''brand_safety_check'' \<mapsto> lit ''passed'']\<rparr>
      else
        \<lparr>Evaluation.approved = False,
         Evaluation.feedback = join (lit '' '') (failed_rules lower self c),
         Evaluation.metadata = [lit ''status'' \<mapsto> lit ''rejected'']\<rparr>) \<and>
   dom (Evaluation.metadata (Critic_evaluate lower self c)) =
     (if failed_rules lower self c = []
      then {lit ''status'', lit ''length'', lit ''word_count'', lit ''brand_safety_check''}
      else {lit ''status''})"
proof -
  have eq: "Critic_evaluate lower self c =
     (if failed_rules lower self c = [] then
        \<lparr>Evaluation.approved = True, Evaluation.feedback = lit ''Approved'',
         Evaluation.metadata =
           [lit ''status'' \<mapsto> lit ''approved'',
            lit ''length'' \<mapsto> str_int (int (length c)),
            lit ''word_count'' \<mapsto> str_int (int (length (py_split c))),
            lit ''brand_safety_check'' \<mapsto> lit ''passed'']\<rparr>
      else
        \<lparr>Evaluation.approved = False,
         Evaluation.feedback = join (lit '' '') (failed_rules lower self c),
         Evaluation.metadata = [lit ''status'' \<mapsto> lit ''rejected'']\<rparr>)"
    by (simp add: Critic_evaluate_def failed_rules_def Let_def)
  show ?thesis
  proof (cases "failed_rules lower self c = []")
    case True
    with eq show ?thesis by auto
  next
    case False
    with eq show ?thesis by auto
  qed
qed

theorem Critic_evaluate_rules_witness:
  "Critic_evaluate ascii_lower (Critic_init (lit ''Prod'') 2) (lit ''We HATE rocks'') =
     \<lparr>Evaluation.approved = False,
      Evaluation.feedback = lit ''Must contain an emoji. Too long (3 words). Keep under 2. Please mention the product by name. Contains blocked terms; rewrite for brand safety.'',
      Evaluation.metadata = [lit ''status'' \<mapsto> lit ''rejected'']\<rparr>"
proof -
  have "failed_rules ascii_lower (Critic_init (lit ''Prod'') 2) (lit ''We HATE rocks'') =
          [lit ''Must contain an emoji.'', lit ''Too long (3 words). Keep under 2.'',
           lit ''Please mention the product by name.'',
           lit ''Contains blocked terms; rewrite for brand safety.'']"
    by (simp add: failed_rules_def Critic_init_def lit_def ascii_lower_def
          contains_emoji_def py_split_def isspace_def startswith_def str_int_def)
  with Critic_evaluate_rules
         [of ascii_lower "Critic_init (lit ''Prod'') 2" "lit ''We HATE rocks''"]
  show ?thesis by (simp add: lit_def)
qed

text \<open>Two captions of the tests.\<close>

lemma Critic_approves_valid_caption:
  "Critic_evaluate ascii_lower (Critic_init (lit ''Prod'') 10) (lit ''Prod rocks '' @ [0x26A1]) =
     \<lparr>Evaluation.approved = True, Evaluation.feedback = lit ''Approved'',
      Evaluation.metadata =
        [lit ''status'' \<mapsto> lit ''approved'', lit ''length'' \<mapsto> lit ''12'',
         lit ''word_count'' \<mapsto> lit ''3'', lit ''brand_safety_check'' \<mapsto> lit ''passed'']\<rparr>"
  by (simp add: Critic_evaluate_def Critic_init_def Let_def lit_def ascii_lower_def
        contains_emoji_def py_split_def isspace_def startswith_def str_int_def)

lemma Critic_rejects_missing_emoji:
  "Critic_evaluate ascii_lower (Critic_init (lit ''Prod'') 10) (lit ''Prod rocks'') =
     \<lparr>Evaluation.approved = False, Evaluation.feedback = lit ''Must contain an emoji.'',
      Evaluation.metadata = [lit ''status'' \<mapsto> lit ''rejected'']\<rparr>"
  by (simp add: Critic_evaluate_def Critic_init_def Let_def lit_def ascii_lower_def
        contains_emoji_def py_split_def isspace_def startswith_def)


section \<open>The final payload\<close>

text \<open>
  C8, as stated, fails: not every attribute mapping gives an envelope. A \<open>length\<close> that
  is not an integer literal makes \<open>int\<close> raise, and the function returns nothing.
\<close>

theorem payload_rejects_non_numeric_length:
  "build_adcp_payload no_decimal (lit ''Prod'') (lit ''QA'') (lit ''Prod rocks '' @ [0x26A1])
      [lit ''length'' \<mapsto> lit ''n/a'', lit ''word_count'' \<mapsto> lit ''3'']
   = Inl (InvalidLiteral (lit ''n/a''))"
  by (simp add: build_adcp_payload_def meta_int_def py_int_def int_literal_def
        digit_value_def int_space_def isspace_def lit_def)

text \<open>\<open>int\<close> raises for the string it is given, and only for a string no integer is read from.\<close>

lemma py_int_error: "py_int decimal v = Inl err \<Longrightarrow> err = InvalidLiteral v"
  by (auto simp: py_int_def Let_def split: prod.splits option.splits)

lemma py_int_not_literal:
  "(\<forall>n. py_int decimal v \<noteq> Inr n) \<Longrightarrow> py_int decimal v = Inl (InvalidLiteral v)"
  by (cases "py_int decimal v") (auto dest: py_int_error)

lemmas int_defs = meta_int_def py_int_def int_literal_def digit_value_def int_space_def
  isspace_def lit_def

text \<open>
  C8, amended. For every product, audience, caption and attribute mapping whose \<open>length\<close>
  and \<open>word_count\<close>, where present, are integer literals, the result is the fixed
  envelope: version "1.0", task "creative\_generation", the audience, one text\_ad asset
  holding the caption, the product, and a metadata block whose length and word count
  are the parsed attributes, or the caption's number of characters and of
  whitespace-separated words where the attribute is absent, whose sentiment is
  "energetic" and whose brand\_safety\_check is the attribute, or "unknown" where absent.
  Where a present \<open>length\<close> is not an integer literal the function raises the
  \<open>ValueError\<close> of \<open>int\<close> for it; where \<open>length\<close> is absent or parses and a present
  \<open>word_count\<close> is not an integer literal, it raises that error for the \<open>word_count\<close>. So
  whenever one of the two is present and not an integer literal, no envelope is
  returned.
\<close>

theorem build_adcp_payload_envelope:
  "(meta_int decimal meta (lit ''length'') (length c) = Inr l \<and>
    meta_int decimal meta (lit ''word_count'') (length (py_split c)) = Inr w \<longrightarrow>
      build_adcp_payload decimal p a c meta =
           Inr \<lparr>adcp_version = lit ''1.0'', task = lit ''creative_generation'',
                payload = \<lparr>target_audience = a,
                            creative_assets = [\<lparr>type = lit ''text_ad'', content = c\<rparr>],
                            Payload.product = p\<rparr>,
                AdcpPayload.metadata =
                  \<lparr>length_md = l, word_count = w, sentiment = lit ''energetic'',
                   brand_safety_check = (case meta (lit ''brand_safety_check'') of
                                           None \<Rightarrow> lit ''unknown'' | Some v \<Rightarrow> v)\<rparr>\<rparr> \<and>
         (case meta (lit ''length'') of
            None \<Rightarrow> l = int (length c) | Some v \<Rightarrow> py_int decimal v = Inr l) \<and>
         (case meta (lit ''word_count'') of
            None \<Rightarrow> w = int (length (py_split c)) | Some v \<Rightarrow> py_int decimal v = Inr w)) \<and>
   (meta (lit ''length'') = Some v \<and> (\<forall>n. py_int decimal v \<noteq> Inr n) \<longrightarrow>
      build_adcp_payload decimal p a c meta = Inl (InvalidLiteral v)) \<and>
   (meta_int decimal meta (lit ''length'') (length c) = Inr l \<and>
    meta (lit ''word_count'') = Some v \<and> (\<forall>n. py_int decimal v \<noteq> Inr n) \<longrightarrow>
      build_adcp_payload decimal p a c meta = Inl (InvalidLiteral v)) \<and>
   ((\<exists>u. meta (lit ''length'') = Some u \<and> (\<forall>n. py_int decimal u \<noteq> Inr n)) \<or>
    (\<exists>u. meta (lit ''word_count'') = Some u \<and> (\<forall>n. py_int decimal u \<noteq> Inr n)) \<longrightarrow>
      (\<exists>u. build_adcp_payload decimal p a c meta = Inl (InvalidLiteral u)))"
proof -
  have A: "meta_int decimal meta (lit ''length'') (length c) = Inr l \<and>
    meta_int decimal meta (lit ''word_count'') (length (py_split c)) = Inr w \<longrightarrow>
      build_adcp_payload decimal p a c meta =
           Inr \<lparr>adcp_version = lit ''1.0'', task = lit ''creative_generation'',
                payload = \<lparr>target_audience = a,
                            creative_assets = [\<lparr>type = lit ''text_ad'', content = c\<rparr>],
                            Payload.product = p\<rparr>,
                AdcpPayload.metadata =
                  \<lparr>length_md = l, word_count = w, sentiment = lit ''energetic'',
                   brand_safety_check = (case meta (lit ''brand_safety_check'') of
                                           None \<Rightarrow> lit ''unknown'' | Some v \<Rightarrow> v)\<rparr>\<rparr> \<and>
         (case meta (lit ''length'') of
            None \<Rightarrow> l = int (length c) | Some v \<Rightarrow> py_int decimal v = Inr l) \<and>
         (case meta (lit ''word_count'') of
            None \<Rightarrow> w = int (length (py_split c)) | Some v \<Rightarrow> py_int decimal v = Inr w)"
    by (auto simp: build_adcp_payload_def meta_int_def split: option.splits)
  have B: "meta (lit ''length'') = Some v \<and> (\<forall>n. py_int decimal v \<noteq> Inr n) \<longrightarrow>
      build_adcp_payload decimal p a c meta = Inl (InvalidLiteral v)"
    by (simp add: build_adcp_payload_def meta_int_def py_int_not_literal)
  have C: "meta_int decimal meta (lit ''length'') (length c) = Inr l \<and>
    meta (lit ''word_count'') = Some v \<and> (\<forall>n. py_int decimal v \<noteq> Inr n) \<longrightarrow>
      build_adcp_payload decimal p a c meta = Inl (InvalidLiteral v)"
    by (simp add: build_adcp_payload_def meta_int_def py_int_not_literal)
  have D: "(\<exists>u. meta (lit ''length'') = Some u \<and> (\<forall>n. py_int decimal u \<noteq> Inr n)) \<or>
    (\<exists>u. meta (lit ''word_count'') = Some u \<and> (\<forall>n. py_int decimal u \<noteq> Inr n)) \<longrightarrow>
      (\<exists>u. build_adcp_payload decimal p a c meta = Inl (InvalidLiteral u))"
  proof
    assume h: "(\<exists>u. meta (lit ''length'') = Some u \<and> (\<forall>n. py_int decimal u \<noteq> Inr n)) \<or>
      (\<exists>u. meta (lit ''word_count'') = Some u \<and> (\<forall>n. py_int decimal u \<noteq> Inr n))"
    show "\<exists>u. build_adcp_payload decimal p a c meta = Inl (InvalidLiteral u)"
    proof (cases "meta_int decimal meta (lit ''length'') (length c)")
      case (Inl err)
      then obtain u where "meta (lit ''length'') = Some u" "py_int decimal u = Inl err"
        by (auto simp: meta_int_def split: option.splits)
      with py_int_error [of decimal u err] Inl show ?thesis
        by (simp add: build_adcp_payload_def)
    next
      case (Inr l')
      with h obtain u where u: "meta (lit ''word_count'') = Some u"
          "\<forall>n. py_int decimal u \<noteq> Inr n"
        by (auto simp: meta_int_def split: option.splits)
      with Inr show ?thesis
        by (simp add: build_adcp_payload_def meta_int_def py_int_not_literal)
    qed
  qed
  show ?thesis by (rule conjI [OF A conjI [OF B conjI [OF C D]]])
qed

theorem build_adcp_payload_envelope_witness:
  "build_adcp_payload no_decimal (lit ''Prod'') (lit ''QA'') (lit ''Prod rocks '' @ [0x26A1])
      [lit ''length'' \<mapsto> lit ''12'', lit ''word_count'' \<mapsto> lit ''3'',
       lit ''brand_safety_check'' \<mapsto> lit ''passed''] =
   Inr \<lparr>adcp_version = lit ''1.0'', task = lit ''creative_generation'',
        payload = \<lparr>target_audience = lit ''QA'',
                    creative_assets = [\<lparr>type = lit ''text_ad'',
                                        content = lit ''Prod rocks '' @ [0x26A1]\<rparr>],
                    Payload.product = lit ''Prod''\<rparr>,
        AdcpPayload.metadata =
          \<lparr>length_md = 12, word_count = 3, sentiment = lit ''energetic'',
           brand_safety_check = lit ''passed''\<rparr>\<rparr> \<and>
   build_adcp_payload no_decimal (lit ''Prod'') (lit ''QA'') (lit ''Prod rocks '' @ [0x26A1])
      [lit ''length'' \<mapsto> lit ''12.5''] = Inl (InvalidLiteral (lit ''12.5'')) \<and>
   build_adcp_payload no_decimal (lit ''Prod'') (lit ''QA'') (lit ''Prod rocks '' @ [0x26A1])
      [lit ''length'' \<mapsto> lit ''12'', lit ''word_count'' \<mapsto> lit ''three''] =
     Inl (InvalidLiteral (lit ''three''))"
proof -
  let ?c = "lit ''Prod rocks '' @ [0x26A1]"
  let ?m1 = "[lit ''length'' \<mapsto> lit ''12'', lit ''word_count'' \<mapsto> lit ''3'',
              lit ''brand_safety_check'' \<mapsto> lit ''passed'']"
  let ?m2 = "[lit ''length'' \<mapsto> lit ''12.5'']"
  let ?m3 = "[lit ''length'' \<mapsto> lit ''12'', lit ''word_count'' \<mapsto> lit ''three'']"
  have l1: "meta_int no_decimal ?m1 (lit ''length'') (length ?c) = Inr 12"
    by (simp add: int_defs)
  have w1: "meta_int no_decimal ?m1 (lit ''word_count'') (length (py_split ?c)) = Inr 3"
    by (simp add: int_defs)
  have k2: "?m2 (lit ''length'') = Some (lit ''12.5'')" by (simp add: lit_def)
  have n2: "\<forall>n. py_int no_decimal (lit ''12.5'') \<noteq> Inr n" by (simp add: int_defs)
  have l3: "meta_int no_decimal ?m3 (lit ''length'') (length ?c) = Inr 12"
    by (simp add: int_defs)
  have k3: "?m3 (lit ''word_count'') = Some (lit ''three'')" by (simp add: lit_def)
  have n3: "\<forall>n. py_int no_decimal (lit ''three'') \<noteq> Inr n" by (simp add: int_defs)
  from build_adcp_payload_envelope
         [of no_decimal ?m1 ?c 12 3 "lit ''Prod''" "lit ''QA''"] l1 w1
  have 1: "build_adcp_payload no_decimal (lit ''Prod'') (lit ''QA'') ?c ?m1 =
     Inr \<lparr>adcp_version = lit ''1.0'', task = lit ''creative_generation'',
        payload = \<lparr>target_audience = lit ''QA'',
                    creative_assets = [\<lparr>type = lit ''text_ad'', content = ?c\<rparr>],
                    Payload.product = lit ''Prod''\<rparr>,
        AdcpPayload.metadata =
          \<lparr>length_md = 12, word_count = 3, sentiment = lit ''energetic'',
           brand_safety_check = lit ''passed''\<rparr>\<rparr>"
    by (simp add: lit_def)
  from build_adcp_payload_envelope
         [of no_decimal ?m2 ?c _ _ "lit ''Prod''" "lit ''QA''" "lit ''12.5''"] k2 n2
  have 2: "build_adcp_payload no_decimal (lit ''Prod'') (lit ''QA'') ?c ?m2
             = Inl (InvalidLiteral (lit ''12.5''))"
    by blast
  from build_adcp_payload_envelope
         [of no_decimal ?m3 ?c 12 _ "lit ''Prod''" "lit ''QA''" "lit ''three''"] l3 k3 n3
  have 3: "build_adcp_payload no_decimal (lit ''Prod'') (lit ''QA'') ?c ?m3
             = Inl (InvalidLiteral (lit ''three''))"
    by blast
  from 1 2 3 show ?thesis by (intro conjI)
qed

text \<open>Without the attributes the numbers are recomputed from the caption.\<close>

lemma build_adcp_payload_recomputes:
  "map_sum id AdcpPayload.metadata
     (build_adcp_payload no_decimal (lit ''Prod'') (lit ''QA'') (lit ''Prod rocks '' @ [0x26A1])
        Map.empty) =
   Inr \<lparr>length_md = 12, word_count = 3, sentiment = lit ''energetic'',
        brand_safety_check = lit ''unknown''\<rparr>"
  by (simp add: build_adcp_payload_def meta_int_def py_split_def isspace_def lit_def)


section \<open>The configuration fault\<close>

text \<open>
  C9. With the provider "openai" and a model name that contains a colon, \<open>_build_llm\<close>
  raises a \<open>ValueError\<close> that names the mismatch, and \<open>run_workflow\<close> ends with that
  error whatever the creator, the critic, the modes and the budget are: it is raised
  by the first statement, before a creator or a critic exists, and nothing catches it
  or tries again.
\<close>

theorem openai_with_ollama_tag_fails:
  assumes "provider = lit ''openai''" and "py_in (lit '':'') model"
  shows "build_llm provider model temperature base_url api_key openai_base_url =
           Inl (ValueError
                  (lit ''provider=openai but model looks like an Ollama tag (e.g. llama3:8b). Use an OpenAI model name (e.g. gpt-4o-mini, gpt-4.1-mini, etc.).'')) \<and>
         run_workflow llm_propose llm_evaluate lower rand g r e
             p a max_attempts creator_mode critic_mode model temperature base_url
             provider api_key openai_base_url =
           Inl (ValueError
                  (lit ''provider=openai but model looks like an Ollama tag (e.g. llama3:8b). Use an OpenAI model name (e.g. gpt-4o-mini, gpt-4.1-mini, etc.).''))"
  using assms by (simp add: run_workflow_def build_llm_def lit_def)

theorem openai_with_ollama_tag_fails_witness:
  "run_workflow no_llm_creator no_llm_critic ascii_lower first_choice () () ()
      (lit ''Prod'') (lit ''QA'') 5 (lit ''llm'') (lit ''llm'') (lit ''llama3:8b'') (2 / 5)
      (lit ''http://localhost:11434'') (lit ''openai'') None None =
   Inl (ValueError
          (lit ''provider=openai but model looks like an Ollama tag (e.g. llama3:8b). Use an OpenAI model name (e.g. gpt-4o-mini, gpt-4.1-mini, etc.).''))"
proof -
  have m: "py_in (lit '':'') (lit ''llama3:8b'')"
    by (simp add: lit_def startswith_def)
  show ?thesis by (rule conjunct2 [OF openai_with_ollama_tag_fails [OF refl m]])
qed


section \<open>The template creator\<close>

lemma format_templates:
  "map (\<lambda>t. format_fields t p a) (Creator.templates (Creator_init p a)) = template_captions p a"
  by (simp add: Creator_init_def template_captions_def lit_def startswith_def)

lemma length_templates: "length (Creator.templates (Creator_init p a)) = 4"
  by (simp add: Creator_init_def)

lemma format_template_nth:
  assumes "i < 4"
  shows "format_fields (Creator.templates (Creator_init p a) ! i) p a = template_captions p a ! i"
proof -
  from assms have "i < length (Creator.templates (Creator_init p a))"
    by (simp add: length_templates)
  then have "map (\<lambda>t. format_fields t p a) (Creator.templates (Creator_init p a)) ! i
               = format_fields (Creator.templates (Creator_init p a) ! i) p a"
    by (rule nth_map)
  then show ?thesis by (simp add: format_templates)
qed

text \<open>
  C10. A \<open>Creator\<close> as \<open>__init__\<close> builds it has an empty \<open>attempts\<close> list, and \<open>propose\<close>
  on it returns one of the four templates with the product and the audience filled
  in, the one the random draw picks, for every feedback, absent or not. Whatever the
  object, \<open>propose\<close> leaves it as it is, so the list stays empty, the branch that
  applies the feedback is never taken, and every later call answers in the same way.
\<close>

theorem Creator_propose_ignores_feedback:
  "Creator_propose lower rand (Creator_init p a, r) fb =
     Inr (template_captions p a ! (fst (rand r) mod 4), (Creator_init p a, snd (rand r))) \<and>
   Creator.attempts (Creator_init p a) = [] \<and>
   (\<forall>self r0 fb0 c self' r'.
      Creator_propose lower rand (self, r0) fb0 = Inr (c, (self', r')) \<longrightarrow> self' = self)"
proof (intro conjI allI impI)
  have at: "Creator.attempts (Creator_init p a) = []" by (simp add: Creator_init_def)
  then show "Creator.attempts (Creator_init p a) = []" .
  have ne: "Creator.templates (Creator_init p a) \<noteq> []" by (simp add: Creator_init_def)
  obtain k r' where rd: "rand r = (k, r')" by (cases "rand r")
  have "k mod 4 < 4" by simp
  from format_template_nth [OF this]
  have ft: "format_fields (Creator.templates (Creator_init p a) ! (k mod 4)) p a
              = template_captions p a ! (k mod 4)" .
  have pa: "Creator.product (Creator_init p a) = p" "Creator.audience (Creator_init p a) = a"
    by (simp_all add: Creator_init_def)
  show "Creator_propose lower rand (Creator_init p a, r) fb =
     Inr (template_captions p a ! (fst (rand r) mod 4), (Creator_init p a, snd (rand r)))"
    by (simp add: Creator_propose_def Let_def at Creator_pick_template_def ne length_templates
                  ft pa rd
             split: option.splits)
next
  fix self r0 fb0 c self' r'
  assume "Creator_propose lower rand (self, r0) fb0 = Inr (c, (self', r'))"
  then show "self' = self"
    by (auto simp: Creator_propose_def Let_def
             split: if_splits prod.splits sum.splits option.splits)
qed

theorem Creator_propose_ignores_feedback_witness:
  "Creator_propose ascii_lower second_choice (Creator_init (lit ''Neon'') (lit ''Gamers''), 0)
      (Some (lit ''Must contain an emoji. Please mention the product by name.'')) =
     Inr (lit ''Boost with Neon for Gamers '' @ [0x1F680],
          (Creator_init (lit ''Neon'') (lit ''Gamers''), 1))"
  using Creator_propose_ignores_feedback
          [of ascii_lower second_choice "lit ''Neon''" "lit ''Gamers''" 0
              "Some (lit ''Must contain an emoji. Please mention the product by name.'')"]
  by (simp add: second_choice_def template_captions_def lit_def)

text \<open>
  The branch that is never taken, on an object that did have an attempt on record: the
  feedback would be applied to the last caption.
\<close>

lemma Creator_apply_feedback_example:
  "Creator_apply_feedback ascii_lower (Creator_init (lit ''Neon'') (lit ''QA''))
      (lit ''  some  caption '')
      (lit ''Must contain an emoji. Please mention the product by name.'') =
   lit ''Neon - some caption '' @ [0x1F525]"
  by (simp add: Creator_apply_feedback_def Creator_init_def Let_def lit_def ascii_lower_def
        contains_emoji_def startswith_def strip_def collapse_ws_def isspace_def)

end
